theory Spec2Isabelle
  imports Main "HOL-Library.Word"
begin

section \<open>Data model (service.go)\<close>

text \<open>
  The fields of \<open>storage.ObjectAttrs\<close> that the program reads: the object name, its size
  and its CRC32C checksum (a \<open>uint32\<close>).
\<close>

record ObjectAttrs =
  Name :: string
  Size :: int
  CRC32C :: "32 word"

text \<open>
  One row of the table created by \<open>initTable\<close>:
  \<open>images (name STRING PRIMARY KEY, section STRING, prefix STRING, size FLOAT, crc32 OID)\<close>.
\<close>

record image_row =
  row_name :: string
  row_section :: string
  row_prefix :: string
  row_size :: int
  row_crc32 :: "32 word"

text \<open>
  Errors returned by the database driver and by the storage client. \<open>PgError c\<close> is a
  \<open>*pgconn.PgError\<close> with SQLSTATE \<open>c\<close>; \<open>PreconditionFailed\<close> is the answer of the storage
  service to a write whose \<open>DoesNotExist\<close> condition does not hold.
\<close>

datatype go_error = PgError string | ConnError | PreconditionFailed | StorageError

text \<open>The two run-time panics the program can raise.\<close>

datatype panic = NilPointerDereference | InconsistentLabelCardinality

datatype level = Debug | Info | Error

text \<open>Requests sent to the database, to the storage service and to the bucket iterator.\<close>

datatype call = CreateTable | Count "32 word" | Insert string | Copy string | Next

type_synonym Labels = "(string \<times> string) list"

text \<open>
  Everything the program acts on: the rows of table \<open>images\<close>, the names of the objects of
  the destination bucket, the increments received by the counter vector
  \<open>objectProcessed\<close> (oldest first), the log entries written and the requests sent.
\<close>

record world =
  images :: "image_row list"
  dst_objects :: "string set"
  objectProcessed :: "Labels list"
  logs :: "(level \<times> string) list"
  calls :: "call list"

text \<open>
  What the database answers to one \<open>crdbpgx.ExecuteTx\<close>: an error when the transaction is
  opened, an error of the statement run inside it, an error when it is committed.
\<close>

record tx_env =
  begin_err :: "go_error option"
  exec_err :: "go_error option"
  commit_err :: "go_error option"

text \<open>
  The surroundings of one call of \<open>processImage\<close>: the library function \<open>filepath.Dir\<close>
  (not part of the repository, hence a parameter), the answers of the database to the two
  transactions, and a failure of the copy other than the precondition.
\<close>

record env =
  filepath_Dir :: "string \<Rightarrow> string"
  count_tx :: tx_env
  insert_tx :: tx_env
  copy_fault :: "go_error option"

section \<open>Logging and metrics\<close>

definition log :: "level \<Rightarrow> string \<Rightarrow> world \<Rightarrow> world" where
  "log lv msg w = w\<lparr>logs := logs w @ [(lv, msg)]\<rparr>"

definition request :: "call \<Rightarrow> world \<Rightarrow> world" where
  "request c w = w\<lparr>calls := calls w @ [c]\<rparr>"

text \<open>The variable labels \<open>objectProcessed\<close> is declared with (service.go, line 27).\<close>

definition objectProcessed_labels :: "string list" where
  "objectProcessed_labels = [''status'', ''operation'']"

text \<open>
  \<open>CounterVec.With\<close> panics unless the label map has exactly the declared label names
  (the client library's \<open>GetMetricWith\<close> returns an error "if the number and names of the
  Labels are inconsistent with those of the variable labels", and \<open>With\<close> panics on it).
\<close>

definition With :: "string list \<Rightarrow> Labels \<Rightarrow> panic + Labels" where
  "With names ls =
     (if length ls = length names \<and> list_all (\<lambda>n. n \<in> set (map fst ls)) names
      then Inr ls else Inl InconsistentLabelCardinality)"

text \<open>\<open>objectProcessed.With(labels).Inc()\<close>.\<close>

definition With_Inc :: "Labels \<Rightarrow> world \<Rightarrow> panic option \<times> world" where
  "With_Inc ls w =
     (case With objectProcessed_labels ls of
        Inl p \<Rightarrow> (Some p, w)
      | Inr l \<Rightarrow> (None, w\<lparr>objectProcessed := objectProcessed w @ [l]\<rparr>))"

section \<open>The index (service.go, lines 81-157)\<close>

text \<open>
  \<open>crdbpgx.ExecuteTx\<close>: open a transaction, run the closure, commit. An error of the
  closure or of the commit rolls the table back. The closure may write a captured local
  variable (\<open>count\<close> in \<open>getImageCount\<close>), so it runs on a pair of that variable and the
  world. The library re-runs the closure after a serialization conflict; a run is
  represented by its last attempt.
\<close>

definition ExecuteTx ::
  "tx_env \<Rightarrow> ('a \<times> world \<Rightarrow> go_error option \<times> 'a \<times> world) \<Rightarrow> 'a \<times> world
     \<Rightarrow> go_error option \<times> 'a \<times> world" where
  "ExecuteTx t fn s =
     (case begin_err t of
        Some e \<Rightarrow> (Some e, s)
      | None \<Rightarrow>
          (case fn s of
             (Some e, l, w') \<Rightarrow> (Some e, l, w'\<lparr>images := images (snd s)\<rparr>)
           | (None, l, w') \<Rightarrow>
               (case commit_err t of
                  Some e \<Rightarrow> (Some e, l, w'\<lparr>images := images (snd s)\<rparr>)
                | None \<Rightarrow> (None, l, w'))))"

text \<open>
  \<open>initTable\<close>: an error of the statement is returned only when it is a \<open>PgError\<close> whose
  code is not 42P07; any other error is dropped and \<open>nil\<close> is returned.
  \<open>CREATE TABLE IF NOT EXISTS\<close> leaves the rows of an existing table as they are.
\<close>

definition initTable :: "tx_env \<Rightarrow> unit \<times> world \<Rightarrow> go_error option \<times> unit \<times> world" where
  "initTable t s =
     (let w1 = request CreateTable (log Info ''creating image table'' (snd s)) in
      case exec_err t of
        Some (PgError c) \<Rightarrow>
          if c \<noteq> ''42P07'' then (Some (PgError c), (), w1)
          else (None, (), log Info ''image table created'' w1)
      | _ \<Rightarrow> (None, (), log Info ''image table created'' w1))"

text \<open>\<open>INSERT INTO images ... ON CONFLICT (name) DO NOTHING\<close>.\<close>

definition insert_row :: "image_row \<Rightarrow> image_row list \<Rightarrow> image_row list" where
  "insert_row r rows = (if row_name r \<in> set (map row_name rows) then rows else rows @ [r])"

text \<open>The values bound to \<open>$1\<close> ... \<open>$5\<close> at line 110.\<close>

definition image_row_of :: "env \<Rightarrow> ObjectAttrs \<Rightarrow> string \<Rightarrow> image_row" where
  "image_row_of e i s =
     \<lparr>row_name = Name i, row_section = s, row_prefix = filepath_Dir e (Name i),
      row_size = Size i, row_crc32 = CRC32C i\<rparr>"

definition insertImage :: "env \<Rightarrow> ObjectAttrs \<Rightarrow> string \<Rightarrow> world \<Rightarrow> go_error option \<times> world" where
  "insertImage e i s w =
     (case ExecuteTx (insert_tx e)
             (\<lambda>(u, w0).
                let w1 = request (Insert (Name i)) w0 in
                case exec_err (insert_tx e) of
                  Some err \<Rightarrow> (Some err, u, w1)
                | None \<Rightarrow>
                    (None, u, w1\<lparr>images := insert_row (image_row_of e i s) (images w1)\<rparr>))
             ((), w) of
        (err, u, w') \<Rightarrow> (err, w'))"

text \<open>\<open>SELECT COUNT(*) FROM images WHERE crc32 = $1\<close>.\<close>

definition count_rows :: "32 word \<Rightarrow> image_row list \<Rightarrow> int" where
  "count_rows crc32 rows = int (length (filter (\<lambda>r. row_crc32 r = crc32) rows))"

text \<open>
  \<open>getImageCount\<close> returns the captured \<open>count\<close> together with the error, as the Go
  function does.
\<close>

definition getImageCount :: "env \<Rightarrow> 32 word \<Rightarrow> world \<Rightarrow> (int \<times> go_error option) \<times> world" where
  "getImageCount e crc32 w =
     (case ExecuteTx (count_tx e)
             (\<lambda>(count, w0).
                let w1 = request (Count crc32) w0 in
                case exec_err (count_tx e) of
                  Some err \<Rightarrow> (Some err, count, w1)
                | None \<Rightarrow> (None, count_rows crc32 (images w1), w1))
             (0, w) of
        (err, count, w') \<Rightarrow> ((count, err), w'))"

section \<open>The conditional copy (service.go, lines 248-253)\<close>

text \<open>
  \<open>dstObj.If(storage.Conditions{DoesNotExist: true}).CopierFrom(srcObj).Run(ctx)\<close>: the
  copy is refused when the destination already holds an object of that name.
\<close>

definition copyObject :: "env \<Rightarrow> string \<Rightarrow> world \<Rightarrow> go_error option \<times> world" where
  "copyObject e n w =
     (let w1 = request (Copy n) w in
      case copy_fault e of
        Some err \<Rightarrow> (Some err, w1)
      | None \<Rightarrow>
          if n \<in> dst_objects w1 then (Some PreconditionFailed, w1)
          else (None, w1\<lparr>dst_objects := insert n (dst_objects w1)\<rparr>))"

section \<open>processImage (service.go, lines 219-264)\<close>

text \<open>\<open>strings.Split(attrs.Name, "/")[0]\<close>: the name up to its first slash.\<close>

definition section_of :: "string \<Rightarrow> string" where
  "section_of n = takeWhile (\<lambda>c. c \<noteq> CHR ''/'') n"

text \<open>
  \<open>attrs\<close> is a pointer: \<open>None\<close> is \<open>nil\<close>, and reading \<open>attrs.Name\<close> then panics. The
  result is the panic that ended the call, if any, and the world as the call left it.
\<close>

definition processImage :: "env \<Rightarrow> ObjectAttrs option \<Rightarrow> world \<Rightarrow> panic option \<times> world" where
  "processImage e attrs w =
     (case attrs of
        None \<Rightarrow> (Some NilPointerDereference, w)
      | Some a \<Rightarrow>
          (let s = section_of (Name a) in
           (case getImageCount e (CRC32C a) w of
              ((count, Some err), w1) \<Rightarrow>
                With_Inc [(''status'', ''error'')]
                  (log Error ''failed to count existing image'' w1)
            | ((count, None), w1) \<Rightarrow>
                (case insertImage e a s (log Debug ''count'' w1) of
                   (Some err, w2) \<Rightarrow>
                     (case With_Inc [(''status'', ''error'')] w2 of
                        (Some p, w3) \<Rightarrow> (Some p, w3)
                      | (None, w3) \<Rightarrow> (None, log Error ''failed to insert image'' w3))
                 | (None, w2) \<Rightarrow>
                     (let w3 = log Debug ''insert'' w2 in
                      if count = 0 then
                        (case copyObject e (Name a) (log Debug ''init copy'' w3) of
                           (Some err, w4) \<Rightarrow>
                             With_Inc [(''status'', ''error''), (''operation'', ''copy'')]
                               (log Error ''copy'' w4)
                         | (None, w4) \<Rightarrow>
                             (case With_Inc [(''status'', ''success''), (''operation'', ''copy'')]
                                     (log Debug ''copy'' w4) of
                                (Some p, w5) \<Rightarrow> (Some p, w5)
                              | (None, w5) \<Rightarrow> (None, log Info ''image'' w5)))
                      else
                        (case With_Inc [(''status'', ''success''), (''operation'', ''skip'')] w3 of
                           (Some p, w5) \<Rightarrow> (Some p, w5)
                         | (None, w5) \<Rightarrow> (None, log Info ''image'' w5)))))))"

section \<open>The service (service.go, lines 31-79 and 159-271)\<close>

record SvcOptions =
  opt_Limit :: int
  opt_Prefix :: string
  opt_SrcBucketName :: string
  opt_DstBucketName :: string

text \<open>
  The fields of \<open>ImgDeduper\<close> that hold data; \<open>Context\<close>, \<open>Client\<close> and \<open>Roach\<close> are the
  handles through which the service reaches the \<open>world\<close>.
\<close>

record ImgDeduper =
  Ready :: bool
  Limit :: int
  Prefix :: string
  SrcBucketName :: string
  DstBucketName :: string

definition NewSvc :: "SvcOptions \<Rightarrow> ImgDeduper" where
  "NewSvc opts =
     \<lparr>Ready = False, Limit = opt_Limit opts, Prefix = opt_Prefix opts,
      SrcBucketName = opt_SrcBucketName opts, DstBucketName = opt_DstBucketName opts\<rparr>"

definition IsReady :: "ImgDeduper \<Rightarrow> bool" where
  "IsReady svc = Ready svc"

definition Stop :: "ImgDeduper \<Rightarrow> world \<Rightarrow> ImgDeduper \<times> world" where
  "Stop svc w = (svc\<lparr>Ready := False\<rparr>, log Info ''stopping service'' w)"

text \<open>The one field of \<open>storage.Query\<close> the program sets; the empty string is no filter.\<close>

record Query =
  MatchGlob :: string

text \<open>
  What one call of the iterator's \<open>Next\<close> gives back before \<open>iterator.Done\<close>: the
  attributes of an object, or \<open>nil\<close> and an error.
\<close>

datatype fetch = Object ObjectAttrs | NextError go_error

text \<open>
  The surroundings of one run of \<open>Start\<close>: what the source bucket lists, in its order,
  when no filter is set; the glob matcher of the storage service (pattern, then name);
  the answer of the database to the schema transaction; the surroundings of the
  iteration in which \<open>idx\<close> has a given value; and whether another goroutine calls
  \<open>Stop\<close> while that iteration runs (\<open>main\<close> calls it on the first interrupt signal).
\<close>

record run_env =
  src_listing :: "fetch list"
  glob_match :: "string \<Rightarrow> string \<Rightarrow> bool"
  init_tx :: tx_env
  iteration :: "int \<Rightarrow> env"
  stop_request :: "int \<Rightarrow> bool"

text \<open>\<open>src.Objects(svc.Context, q)\<close>: the results the iterator will give, up to \<open>Done\<close>.\<close>

definition Objects :: "run_env \<Rightarrow> Query \<Rightarrow> fetch list" where
  "Objects r q =
     (if MatchGlob q = [] then src_listing r
      else filter (\<lambda>f. case f of Object a \<Rightarrow> glob_match r (MatchGlob q) (Name a)
                               | NextError err \<Rightarrow> True)
             (src_listing r))"

text \<open>The query built at lines 174-180.\<close>

definition mkQuery :: "ImgDeduper \<Rightarrow> Query" where
  "mkQuery svc =
     (if Prefix svc \<noteq> [] then \<lparr>MatchGlob = Prefix svc @ ''/*.jpg''\<rparr> else \<lparr>MatchGlob = []\<rparr>)"

text \<open>
  The loop of lines 195-214 on the results \<open>b\<close> the iterator still holds; \<open>idx\<close> is the
  value of the counter before the iteration. The empty list is the iterator answering
  \<open>Done\<close>. After a failed \<open>Next\<close> the code logs and goes on to \<open>processImage\<close> with the
  \<open>nil\<close> attributes. A panic ends the loop.
\<close>

fun loop ::
  "run_env \<Rightarrow> fetch list \<Rightarrow> int \<Rightarrow> ImgDeduper \<Rightarrow> world \<Rightarrow> panic option \<times> ImgDeduper \<times> world" where
  "loop r [] idx svc w =
     (if \<not> Ready svc then (None, svc, w)
      else if Limit svc \<noteq> 0 \<and> idx + 1 > Limit svc
        then (None, svc, log Info ''limit reached'' w)
      else (None, svc, request Next w))"
| "loop r (f # b) idx svc w =
     (if \<not> Ready svc then (None, svc, w)
      else if Limit svc \<noteq> 0 \<and> idx + 1 > Limit svc
        then (None, svc, log Info ''limit reached'' w)
      else
        (let w1 = request Next w;
             (attrs, w2) =
               (case f of
                  Object a \<Rightarrow> (Some a, w1)
                | NextError err \<Rightarrow> (None, log Error ''failed to get next bucket object'' w1))
         in case processImage (iteration r (idx + 1)) attrs w2 of
              (Some p, w3) \<Rightarrow> (Some p, svc, w3)
            | (None, w3) \<Rightarrow>
                (if stop_request r (idx + 1)
                 then (case Stop svc w3 of (svc', w4) \<Rightarrow> loop r b (idx + 1) svc' w4)
                 else loop r b (idx + 1) svc w3)))"

text \<open>The schema transaction of \<open>Start\<close> (lines 184-186), run on a world.\<close>

definition schema_init :: "run_env \<Rightarrow> world \<Rightarrow> go_error option \<times> unit \<times> world" where
  "schema_init r w = ExecuteTx (init_tx r) (initTable (init_tx r)) ((), w)"

text \<open>How a call of \<open>Start\<close> ends: it returns its error value, or it panics.\<close>

datatype result = Returned "go_error option" | Panicked panic

definition Start :: "run_env \<Rightarrow> ImgDeduper \<Rightarrow> world \<Rightarrow> result \<times> ImgDeduper \<times> world" where
  "Start r svc w =
     (let w1 = log Info ''service started'' w;
          w2 = log Info ''src bucket'' (log Info ''dst bucket'' w1);
          b = Objects r (mkQuery svc)
      in case schema_init r w2 of
           (Some err, u, w3) \<Rightarrow> (Returned (Some err), svc, w3)
         | (None, u, w3) \<Rightarrow>
             (case loop r b 0 (svc\<lparr>Ready := True\<rparr>) (log Info ''service ready'' w3) of
                (Some p, svc', w4) \<Rightarrow> (Panicked p, svc', w4)
              | (None, svc', w4) \<Rightarrow> (Returned None, svc', w4)))"

text \<open>The handler of \<open>/health\<close> in \<open>startWebServer\<close>: status code and body.\<close>

definition health :: "ImgDeduper \<Rightarrow> nat \<times> string" where
  "health svc = (if IsReady svc then (200, ''ready'') else (500, ''not ready''))"

section \<open>Notions used to state the properties\<close>

text \<open>
  The error with which \<open>ExecuteTx\<close> ends when the statement run inside the transaction
  answers \<open>exec_err\<close>: the first of the three errors that is present. It is the error
  \<open>getImageCount\<close> and \<open>insertImage\<close> return (lemmas \<open>getImageCount_error\<close> and
  \<open>insertImage_error\<close>).
\<close>

definition tx_error :: "tx_env \<Rightarrow> go_error option" where
  "tx_error t =
     (case begin_err t of
        Some e \<Rightarrow> Some e
      | None \<Rightarrow> (case exec_err t of Some e \<Rightarrow> Some e | None \<Rightarrow> commit_err t))"

text \<open>The object names for which an \<open>INSERT\<close> was sent, and those for which a copy was asked.\<close>

definition inserted :: "world \<Rightarrow> string list" where
  "inserted w = concat (map (\<lambda>c. case c of Insert n \<Rightarrow> [n] | _ \<Rightarrow> []) (calls w))"

definition copied :: "world \<Rightarrow> string list" where
  "copied w = concat (map (\<lambda>c. case c of Copy n \<Rightarrow> [n] | _ \<Rightarrow> []) (calls w))"

text \<open>The fingerprints for which a \<open>SELECT COUNT\<close> was sent.\<close>

definition counted :: "world \<Rightarrow> 32 word list" where
  "counted w = concat (map (\<lambda>c. case c of Count x \<Rightarrow> [x] | _ \<Rightarrow> []) (calls w))"

text \<open>
  The glob matcher of the storage service, for the part of its pattern language that the
  properties below need. It is not code of the repository: it follows the service's
  description of \<open>matchGlob\<close>, where \<open>*\<close> stands for any run of characters other than the
  slash, \<open>**\<close> for any run of characters, \<open>?\<close> for one character other than the slash, and
  any other character for itself. Character classes and alternatives (\<open>[\<close>, \<open>{\<close>) are
  not described here; \<open>glob_literal\<close> excludes them.
\<close>

datatype glob_token = Lit char | AnyChar | Star | StarStar

fun glob_tokens :: "string \<Rightarrow> glob_token list" where
  "glob_tokens [] = []"
| "glob_tokens (c # p) =
     (if c = CHR ''*'' then
        (case p of
           [] \<Rightarrow> [Star]
         | d # p' \<Rightarrow> if d = CHR ''*'' then StarStar # glob_tokens p' else Star # glob_tokens p)
      else if c = CHR ''?'' then AnyChar # glob_tokens p
      else Lit c # glob_tokens p)"

fun match_tokens :: "glob_token list \<Rightarrow> string \<Rightarrow> bool" where
  "match_tokens [] n = (n = [])"
| "match_tokens (Lit c # ts) n =
     (case n of [] \<Rightarrow> False | x # n' \<Rightarrow> x = c \<and> match_tokens ts n')"
| "match_tokens (AnyChar # ts) n =
     (case n of [] \<Rightarrow> False | x # n' \<Rightarrow> x \<noteq> CHR ''/'' \<and> match_tokens ts n')"
| "match_tokens (Star # ts) n =
     (if match_tokens ts n then True
      else (case n of [] \<Rightarrow> False | x # n' \<Rightarrow> x \<noteq> CHR ''/'' \<and> match_tokens (Star # ts) n'))"
| "match_tokens (StarStar # ts) n =
     (if match_tokens ts n then True
      else (case n of [] \<Rightarrow> False | x # n' \<Rightarrow> match_tokens (StarStar # ts) n'))"

definition matchGlob :: "string \<Rightarrow> string \<Rightarrow> bool" where
  "matchGlob p n = match_tokens (glob_tokens p) n"


text \<open>The world once the count and the insert of an object have both succeeded.\<close>

definition indexed :: "env \<Rightarrow> ObjectAttrs \<Rightarrow> world \<Rightarrow> world" where
  "indexed e a w =
     log Debug ''insert''
       (request (Insert (Name a)) (log Debug ''count'' (request (Count (CRC32C a)) w))
          \<lparr>images := insert_row (image_row_of e a (section_of (Name a))) (images w)\<rparr>)"

section \<open>Example inputs\<close>

text \<open>
  A database and a storage service that answer without error, a world in which nothing
  has happened yet, and the three objects of the README's table.
\<close>

definition ok_tx :: tx_env where
  "ok_tx = \<lparr>begin_err = None, exec_err = None, commit_err = None\<rparr>"

definition ok_env :: env where
  "ok_env = \<lparr>filepath_Dir = (\<lambda>n. n), count_tx = ok_tx, insert_tx = ok_tx, copy_fault = None\<rparr>"

definition empty_world :: world where
  "empty_world = \<lparr>images = [], dst_objects = {}, objectProcessed = [], logs = [], calls = []\<rparr>"

definition img_1_1 :: ObjectAttrs where
  "img_1_1 = \<lparr>Name = ''A/1/1_1.jpg'', Size = 253648, CRC32C = 2784486622\<rparr>"

definition img_1_2 :: ObjectAttrs where
  "img_1_2 = \<lparr>Name = ''A/1/1_2.jpg'', Size = 253703, CRC32C = 3645130469\<rparr>"

definition img_2_1 :: ObjectAttrs where
  "img_2_1 = \<lparr>Name = ''A/2/2_1.jpg'', Size = 253703, CRC32C = 3645130469\<rparr>"

text \<open>
  A run on a bucket that lists \<open>b\<close>, in which nothing fails, \<open>Stop\<close> is not called and the
  storage service matches globs as \<open>matchGlob\<close> describes; and the service that \<open>NewSvc\<close>
  makes for a limit and a prefix.
\<close>

definition ok_run :: "fetch list \<Rightarrow> run_env" where
  "ok_run b =
     \<lparr>src_listing = b, glob_match = matchGlob, init_tx = ok_tx,
      iteration = (\<lambda>i. ok_env), stop_request = (\<lambda>i. False)\<rparr>"

definition svc_of :: "int \<Rightarrow> string \<Rightarrow> ImgDeduper" where
  "svc_of n p =
     NewSvc \<lparr>opt_Limit = n, opt_Prefix = p, opt_SrcBucketName = ''src_bucket_name'',
             opt_DstBucketName = ''dst_bucket_name''\<rparr>"

section \<open>Basic facts\<close>

lemmas fixtures =
  ok_tx_def ok_env_def empty_world_def img_1_1_def img_1_2_def img_2_1_def ok_run_def svc_of_def

lemma log_simps [simp]:
  "images (log l m w) = images w" "dst_objects (log l m w) = dst_objects w"
  "objectProcessed (log l m w) = objectProcessed w" "calls (log l m w) = calls w"
  "logs (log l m w) = logs w @ [(l, m)]"
  by (simp_all add: log_def)

lemma request_simps [simp]:
  "images (request c w) = images w" "dst_objects (request c w) = dst_objects w"
  "objectProcessed (request c w) = objectProcessed w" "calls (request c w) = calls w @ [c]"
  "logs (request c w) = logs w"
  by (simp_all add: request_def)

lemma With_Inc_status_only:
  "With_Inc [(''status'', v)] w = (Some InconsistentLabelCardinality, w)"
  by (simp add: With_Inc_def With_def objectProcessed_labels_def)

lemma With_Inc_both:
  "With_Inc [(''status'', v), (''operation'', u)] w =
     (None, w\<lparr>objectProcessed := objectProcessed w @ [[(''status'', v), (''operation'', u)]]\<rparr>)"
  by (simp add: With_Inc_def With_def objectProcessed_labels_def)

lemma getImageCount_ok:
  "tx_error (count_tx e) = None \<Longrightarrow>
     getImageCount e c w = ((count_rows c (images w), None), request (Count c) w)"
  by (auto simp: getImageCount_def ExecuteTx_def tx_error_def request_def split: option.splits)

lemma getImageCount_fails:
  "tx_error (count_tx e) = Some err \<Longrightarrow>
     \<exists>n. getImageCount e c w =
       ((n, Some err), if begin_err (count_tx e) = None then request (Count c) w else w)"
  by (auto simp: getImageCount_def ExecuteTx_def tx_error_def request_def split: option.splits)

lemma getImageCount_error: "snd (fst (getImageCount e c w)) = tx_error (count_tx e)"
  by (auto simp: getImageCount_def ExecuteTx_def tx_error_def split: option.splits)

lemma insertImage_ok:
  "tx_error (insert_tx e) = None \<Longrightarrow>
     insertImage e a s w =
       (None, request (Insert (Name a)) w\<lparr>images := insert_row (image_row_of e a s) (images w)\<rparr>)"
  by (auto simp: insertImage_def ExecuteTx_def tx_error_def request_def split: option.splits)

lemma insertImage_fails:
  "tx_error (insert_tx e) = Some err \<Longrightarrow>
     insertImage e a s w =
       (Some err, if begin_err (insert_tx e) = None then request (Insert (Name a)) w else w)"
  by (auto simp: insertImage_def ExecuteTx_def tx_error_def request_def split: option.splits)

lemma insertImage_error: "fst (insertImage e a s w) = tx_error (insert_tx e)"
  by (auto simp: insertImage_def ExecuteTx_def tx_error_def split: option.splits)

lemma processImage_nil: "processImage e None w = (Some NilPointerDereference, w)"
  by (simp add: processImage_def)

lemma processImage_count_fails:
  assumes "tx_error (count_tx e) = Some err"
  shows "processImage e (Some a) w =
           (Some InconsistentLabelCardinality,
            log Error ''failed to count existing image''
              (if begin_err (count_tx e) = None then request (Count (CRC32C a)) w else w))"
proof -
  from getImageCount_fails [OF assms] obtain n where
    "getImageCount e (CRC32C a) w =
       ((n, Some err), if begin_err (count_tx e) = None then request (Count (CRC32C a)) w else w)"
    by blast
  then show ?thesis
    by (simp add: processImage_def With_Inc_status_only)
qed

lemma processImage_insert_fails:
  assumes "tx_error (count_tx e) = None" and "tx_error (insert_tx e) = Some err"
  shows "processImage e (Some a) w =
           (Some InconsistentLabelCardinality,
            (if begin_err (insert_tx e) = None
             then request (Insert (Name a)) (log Debug ''count'' (request (Count (CRC32C a)) w))
             else log Debug ''count'' (request (Count (CRC32C a)) w)))"
  by (simp add: processImage_def getImageCount_ok [OF assms(1)] insertImage_fails [OF assms(2)]
        With_Inc_status_only)

lemma indexed_simps [simp]:
  "images (indexed e a w) = insert_row (image_row_of e a (section_of (Name a))) (images w)"
  "dst_objects (indexed e a w) = dst_objects w"
  "objectProcessed (indexed e a w) = objectProcessed w"
  "calls (indexed e a w) = calls w @ [Count (CRC32C a), Insert (Name a)]"
  "logs (indexed e a w) = logs w @ [(Debug, ''count''), (Debug, ''insert'')]"
  by (simp_all add: indexed_def)

lemma processImage_skip:
  assumes "tx_error (count_tx e) = None" and "tx_error (insert_tx e) = None"
    and "count_rows (CRC32C a) (images w) \<noteq> 0"
  shows "processImage e (Some a) w =
           (None,
            log Info ''image''
              ((indexed e a w)\<lparr>objectProcessed := objectProcessed w @
                 [[(''status'', ''success''), (''operation'', ''skip'')]]\<rparr>))"
  using assms(3)
  by (simp add: processImage_def getImageCount_ok [OF assms(1)] insertImage_ok [OF assms(2)]
        With_Inc_both indexed_def log_def request_def)

lemma processImage_copy_ok:
  assumes "tx_error (count_tx e) = None" and "tx_error (insert_tx e) = None"
    and "count_rows (CRC32C a) (images w) = 0"
    and "copy_fault e = None" and "Name a \<notin> dst_objects w"
  shows "processImage e (Some a) w =
           (None,
            log Info ''image''
              ((log Debug ''copy''
                 (request (Copy (Name a)) (log Debug ''init copy'' (indexed e a w))
                    \<lparr>dst_objects := insert (Name a) (dst_objects w)\<rparr>))
               \<lparr>objectProcessed := objectProcessed w @
                  [[(''status'', ''success''), (''operation'', ''copy'')]]\<rparr>))"
  using assms(3,4,5)
  by (simp add: processImage_def getImageCount_ok [OF assms(1)] insertImage_ok [OF assms(2)]
        With_Inc_both indexed_def copyObject_def log_def request_def)

lemma processImage_copy_fails:
  assumes "tx_error (count_tx e) = None" and "tx_error (insert_tx e) = None"
    and "count_rows (CRC32C a) (images w) = 0"
    and "copy_fault e \<noteq> None \<or> Name a \<in> dst_objects w"
  shows "processImage e (Some a) w =
           (None,
            (log Error ''copy'' (request (Copy (Name a)) (log Debug ''init copy'' (indexed e a w))))
               \<lparr>objectProcessed := objectProcessed w @
                  [[(''status'', ''error''), (''operation'', ''copy'')]]\<rparr>)"
  using assms(3,4)
  by (cases "copy_fault e")
    (auto simp add: processImage_def getImageCount_ok [OF assms(1)] insertImage_ok [OF assms(2)]
        With_Inc_both indexed_def copyObject_def log_def request_def Let_def)

section \<open>C1: a copy refused by the destination precondition\<close>

text \<open>
  C1, as the code has it. When the count and the insert succeed, the count is 0 and the
  destination already holds an object of that name, \<open>processImage\<close> asks for the copy,
  the copy fails, and the failure is handled like any other copy error: an error log
  entry and one increment labelled status = error, operation = copy. No success
  increment is made and the destination is left as it was.
\<close>

theorem C1_precondition_failure_counted_as_error:
  assumes "tx_error (count_tx e) = None" and "tx_error (insert_tx e) = None"
    and "count_rows (CRC32C a) (images w) = 0"
    and "Name a \<in> dst_objects w"
  shows "fst (processImage e (Some a) w) = None
       \<and> copied (snd (processImage e (Some a) w)) = copied w @ [Name a]
       \<and> objectProcessed (snd (processImage e (Some a) w)) =
           objectProcessed w @ [[(''status'', ''error''), (''operation'', ''copy'')]]
       \<and> logs (snd (processImage e (Some a) w)) =
           logs w @ [(Debug, ''count''), (Debug, ''insert''), (Debug, ''init copy''),
                     (Error, ''copy'')]
       \<and> dst_objects (snd (processImage e (Some a) w)) = dst_objects w"
  using assms(4)
  by (simp add: processImage_copy_fails [OF assms(1,2,3)] copied_def)

text \<open>C1, witness: the first object of the README, already present in the destination.\<close>

theorem C1_precondition_failure_counted_as_error_witness:
  "fst (processImage ok_env (Some img_1_1) (empty_world\<lparr>dst_objects := {''A/1/1_1.jpg''}\<rparr>)) = None
   \<and> objectProcessed
       (snd (processImage ok_env (Some img_1_1) (empty_world\<lparr>dst_objects := {''A/1/1_1.jpg''}\<rparr>))) =
       [[(''status'', ''error''), (''operation'', ''copy'')]]"
proof -
  have 1: "tx_error (count_tx ok_env) = None" and 2: "tx_error (insert_tx ok_env) = None"
    by (simp_all add: fixtures tx_error_def)
  have 3: "count_rows (CRC32C img_1_1) (images (empty_world\<lparr>dst_objects := {''A/1/1_1.jpg''}\<rparr>)) = 0"
    by (simp add: fixtures count_rows_def)
  have 4: "Name img_1_1 \<in> dst_objects (empty_world\<lparr>dst_objects := {''A/1/1_1.jpg''}\<rparr>)"
    by (simp add: fixtures)
  show ?thesis
    using C1_precondition_failure_counted_as_error [OF 1 2 3 4]
    by (simp add: empty_world_def)
qed

text \<open>
  C1, counterexample to the claim as stated (the refused copy is not counted as a
  success or a skip): an index without rows, a destination that holds
  \<open>A/1/1_2.jpg\<close>, no failure of the database or of the transport.
\<close>

theorem C1_counterexample:
  "objectProcessed
     (snd (processImage ok_env (Some img_1_2) (empty_world\<lparr>dst_objects := {''A/1/1_2.jpg''}\<rparr>))) =
     [[(''status'', ''error''), (''operation'', ''copy'')]]
   \<and> (Error, ''copy'') \<in>
       set (logs (snd (processImage ok_env (Some img_1_2)
                         (empty_world\<lparr>dst_objects := {''A/1/1_2.jpg''}\<rparr>))))
   \<and> [(''status'', ''success''), (''operation'', ''skip'')] \<notin>
       set (objectProcessed
              (snd (processImage ok_env (Some img_1_2)
                      (empty_world\<lparr>dst_objects := {''A/1/1_2.jpg''}\<rparr>))))"
proof -
  have "processImage ok_env (Some img_1_2) (empty_world\<lparr>dst_objects := {''A/1/1_2.jpg''}\<rparr>) =
          (None,
           \<lparr>images = [image_row_of ok_env img_1_2 ''A''],
            dst_objects = {''A/1/1_2.jpg''},
            objectProcessed = [[(''status'', ''error''), (''operation'', ''copy'')]],
            logs = [(Debug, ''count''), (Debug, ''insert''), (Debug, ''init copy''),
                    (Error, ''copy'')],
            calls = [Count 3645130469, Insert ''A/1/1_2.jpg'', Copy ''A/1/1_2.jpg'']\<rparr>)"
    by (simp add: processImage_def getImageCount_def insertImage_def ExecuteTx_def
          copyObject_def With_Inc_def With_def objectProcessed_labels_def log_def request_def
          count_rows_def insert_row_def section_of_def fixtures)
  then show ?thesis by simp
qed

section \<open>C3: the increments on the error paths\<close>

text \<open>
  C3, what the code does where the claim fails. When the count query or the insert
  fails, \<open>processImage\<close> calls \<open>With\<close> with the single label \<open>status\<close> (lines 229 and
  237) although the counter vector is declared with \<open>status\<close> and \<open>operation\<close>: the call
  panics and no increment is made for the object.
\<close>

theorem C3_error_paths_panic_without_increment:
  assumes "tx_error (count_tx e) \<noteq> None \<or> tx_error (insert_tx e) \<noteq> None"
  shows "fst (processImage e (Some a) w) = Some InconsistentLabelCardinality
       \<and> objectProcessed (snd (processImage e (Some a) w)) = objectProcessed w"
proof (cases "tx_error (count_tx e)")
  case (Some err)
  then show ?thesis by (simp add: processImage_count_fails)
next
  case None
  with assms obtain err where "tx_error (insert_tx e) = Some err" by auto
  with None show ?thesis by (simp add: processImage_insert_fails)
qed

text \<open>
  C3, witness: the statement of the count query fails with a connection error, and the
  same for the statement of the insert.
\<close>

theorem C3_error_paths_panic_without_increment_witness:
  "fst (processImage (ok_env\<lparr>count_tx := ok_tx\<lparr>exec_err := Some ConnError\<rparr>\<rparr>) (Some img_1_1)
          empty_world) = Some InconsistentLabelCardinality
   \<and> objectProcessed
       (snd (processImage (ok_env\<lparr>count_tx := ok_tx\<lparr>exec_err := Some ConnError\<rparr>\<rparr>)
               (Some img_1_1) empty_world)) = []
   \<and> fst (processImage (ok_env\<lparr>insert_tx := ok_tx\<lparr>exec_err := Some ConnError\<rparr>\<rparr>) (Some img_1_1)
          empty_world) = Some InconsistentLabelCardinality
   \<and> objectProcessed
       (snd (processImage (ok_env\<lparr>insert_tx := ok_tx\<lparr>exec_err := Some ConnError\<rparr>\<rparr>)
               (Some img_1_1) empty_world)) = []"
proof -
  have 1: "tx_error (count_tx (ok_env\<lparr>count_tx := ok_tx\<lparr>exec_err := Some ConnError\<rparr>\<rparr>)) \<noteq> None
         \<or> tx_error (insert_tx (ok_env\<lparr>count_tx := ok_tx\<lparr>exec_err := Some ConnError\<rparr>\<rparr>)) \<noteq> None"
    by (simp add: fixtures tx_error_def)
  have 2: "tx_error (count_tx (ok_env\<lparr>insert_tx := ok_tx\<lparr>exec_err := Some ConnError\<rparr>\<rparr>)) \<noteq> None
         \<or> tx_error (insert_tx (ok_env\<lparr>insert_tx := ok_tx\<lparr>exec_err := Some ConnError\<rparr>\<rparr>)) \<noteq> None"
    by (simp add: fixtures tx_error_def)
  show ?thesis
    using C3_error_paths_panic_without_increment [OF 1, of img_1_1 empty_world]
      C3_error_paths_panic_without_increment [OF 2, of img_1_1 empty_world]
    by (simp add: empty_world_def)
qed

section \<open>C6: failures of the index\<close>

text \<open>A copy is asked for only after the count and the insert have succeeded.\<close>

lemma row_name_insert_row: "row_name r \<in> set (map row_name (insert_row r rows))"
  by (simp add: insert_row_def)

lemma copy_only_after_insert:
  assumes "copied (snd (processImage e (Some a) w)) \<noteq> copied w"
  shows "tx_error (count_tx e) = None \<and> tx_error (insert_tx e) = None
       \<and> Name a \<in> set (map row_name (images (snd (processImage e (Some a) w))))"
proof (cases "tx_error (count_tx e)")
  case (Some err)
  with assms show ?thesis
    by (auto simp add: processImage_count_fails copied_def split: if_splits)
next
  case None
  note c = this
  show ?thesis
  proof (cases "tx_error (insert_tx e)")
    case (Some err)
    with c assms show ?thesis
      by (auto simp add: processImage_insert_fails copied_def split: if_splits)
  next
    case None
    note i = this
    show ?thesis
    proof (cases "count_rows (CRC32C a) (images w) = 0")
      case False
      with c i assms show ?thesis by (simp add: processImage_skip copied_def)
    next
      case True
      note z = this
      show ?thesis
      proof (cases "copy_fault e \<noteq> None \<or> Name a \<in> dst_objects w")
        case True
        have "row_name (image_row_of e a (section_of (Name a))) = Name a"
          by (simp add: image_row_of_def)
        with row_name_insert_row [of "image_row_of e a (section_of (Name a))" "images w"]
        show ?thesis
          using c i by (simp add: processImage_copy_fails [OF c i z True])
      next
        case False
        then have f: "copy_fault e = None" and d: "Name a \<notin> dst_objects w" by auto
        have "row_name (image_row_of e a (section_of (Name a))) = Name a"
          by (simp add: image_row_of_def)
        with row_name_insert_row [of "image_row_of e a (section_of (Name a))" "images w"]
        show ?thesis
          using c i by (simp add: processImage_copy_ok [OF c i z f d])
      qed
    qed
  qed
qed

text \<open>
  C6, what the code does where the claim fails. When the count query or the insert
  fails, the table and the destination bucket are left as they were and no copy is asked
  for (after a failed count no insert is sent either), but no Error outcome is recorded:
  the call of \<open>With\<close> with the single label \<open>status\<close> panics before any increment, and
  on the insert path also before the error is logged.
\<close>

theorem C6_index_failure_panics_before_copy:
  assumes "tx_error (count_tx e) \<noteq> None \<or> tx_error (insert_tx e) \<noteq> None"
  shows "fst (processImage e (Some a) w) = Some InconsistentLabelCardinality
       \<and> objectProcessed (snd (processImage e (Some a) w)) = objectProcessed w
       \<and> images (snd (processImage e (Some a) w)) = images w
       \<and> copied (snd (processImage e (Some a) w)) = copied w
       \<and> dst_objects (snd (processImage e (Some a) w)) = dst_objects w
       \<and> (if tx_error (count_tx e) = None
          then logs (snd (processImage e (Some a) w)) = logs w @ [(Debug, ''count'')]
          else inserted (snd (processImage e (Some a) w)) = inserted w)"
proof (cases "tx_error (count_tx e)")
  case (Some err)
  then show ?thesis by (simp add: processImage_count_fails copied_def inserted_def)
next
  case None
  with assms obtain err where "tx_error (insert_tx e) = Some err" by auto
  with None show ?thesis by (simp add: processImage_insert_fails copied_def inserted_def)
qed

text \<open>C6, witness: the commit of the insert fails.\<close>

theorem C6_index_failure_panics_before_copy_witness:
  "fst (processImage (ok_env\<lparr>insert_tx := ok_tx\<lparr>commit_err := Some ConnError\<rparr>\<rparr>) (Some img_1_2)
          empty_world) = Some InconsistentLabelCardinality
   \<and> objectProcessed
       (snd (processImage (ok_env\<lparr>insert_tx := ok_tx\<lparr>commit_err := Some ConnError\<rparr>\<rparr>)
               (Some img_1_2) empty_world)) = []
   \<and> logs
       (snd (processImage (ok_env\<lparr>insert_tx := ok_tx\<lparr>commit_err := Some ConnError\<rparr>\<rparr>)
               (Some img_1_2) empty_world)) = [(Debug, ''count'')]
   \<and> images
       (snd (processImage (ok_env\<lparr>insert_tx := ok_tx\<lparr>commit_err := Some ConnError\<rparr>\<rparr>)
               (Some img_1_2) empty_world)) = []"
proof -
  have 1: "tx_error (count_tx (ok_env\<lparr>insert_tx := ok_tx\<lparr>commit_err := Some ConnError\<rparr>\<rparr>)) \<noteq> None
         \<or> tx_error (insert_tx (ok_env\<lparr>insert_tx := ok_tx\<lparr>commit_err := Some ConnError\<rparr>\<rparr>)) \<noteq> None"
    by (simp add: fixtures tx_error_def)
  have 2: "tx_error (count_tx (ok_env\<lparr>insert_tx := ok_tx\<lparr>commit_err := Some ConnError\<rparr>\<rparr>)) = None"
    by (simp add: fixtures tx_error_def)
  show ?thesis
    using C6_index_failure_panics_before_copy [OF 1, of img_1_2 empty_world] 2
    by (simp add: empty_world_def)
qed

section \<open>C7 and C8: two objects of one fingerprint, and one object twice\<close>

lemma count_rows_append: "count_rows c (rows @ [r]) = count_rows c rows + (if row_crc32 r = c then 1 else 0)"
  by (simp add: count_rows_def)



lemma insert_row_absent: "row_name r \<notin> set (map row_name rows) \<Longrightarrow> insert_row r rows = rows @ [r]"
  by (simp add: insert_row_def)

text \<open>
  C7, as the code has it. Let \<open>a\<close> and \<open>b\<close> have the same fingerprint. Start from an index
  with no row of that fingerprint and no row named as \<open>a\<close>, and a destination without
  an object named as \<open>a\<close>; let the index operations of both calls and the copy of \<open>a\<close>
  succeed. Then processing \<open>a\<close> and then \<open>b\<close> makes two increments, success/copy for \<open>a\<close>
  and success/skip for \<open>b\<close>, and asks for one copy, that of \<open>a\<close>.
\<close>

theorem C7_first_copied_second_skipped:
  assumes "CRC32C a = CRC32C b"
    and "count_rows (CRC32C a) (images w) = 0"
    and "Name a \<notin> set (map row_name (images w))"
    and "Name a \<notin> dst_objects w"
    and "tx_error (count_tx e1) = None" and "tx_error (insert_tx e1) = None"
    and "copy_fault e1 = None"
    and "tx_error (count_tx e2) = None" and "tx_error (insert_tx e2) = None"
  shows "fst (processImage e1 (Some a) w) = None
       \<and> fst (processImage e2 (Some b) (snd (processImage e1 (Some a) w))) = None
       \<and> objectProcessed (snd (processImage e2 (Some b) (snd (processImage e1 (Some a) w)))) =
           objectProcessed w @ [[(''status'', ''success''), (''operation'', ''copy'')],
                                [(''status'', ''success''), (''operation'', ''skip'')]]
       \<and> copied (snd (processImage e2 (Some b) (snd (processImage e1 (Some a) w)))) =
           copied w @ [Name a]
       \<and> dst_objects (snd (processImage e2 (Some b) (snd (processImage e1 (Some a) w)))) =
           insert (Name a) (dst_objects w)"
proof -
  let ?ra = "image_row_of e1 a (section_of (Name a))"
  let ?w1 = "snd (processImage e1 (Some a) w)"
  note first = processImage_copy_ok [OF assms(5) assms(6) assms(2) assms(7) assms(4)]
  have names: "row_name ?ra = Name a" and crc: "row_crc32 ?ra = CRC32C b"
    using assms(1) by (simp_all add: image_row_of_def)
  have img1: "images ?w1 = images w @ [?ra]"
    using assms(3) by (simp add: first insert_row_absent names)
  have "count_rows (CRC32C b) (images ?w1) \<noteq> 0"
    using assms(1,2) by (simp add: img1 count_rows_append crc)
  note second = processImage_skip [OF assms(8) assms(9) this]
  show ?thesis
    by (simp add: second copied_def) (simp add: first)
qed

text \<open>C7, witness: the two objects of the README with fingerprint 3645130469.\<close>

theorem C7_first_copied_second_skipped_witness:
  "objectProcessed
     (snd (processImage ok_env (Some img_2_1) (snd (processImage ok_env (Some img_1_2) empty_world)))) =
     [[(''status'', ''success''), (''operation'', ''copy'')],
      [(''status'', ''success''), (''operation'', ''skip'')]]
   \<and> dst_objects
       (snd (processImage ok_env (Some img_2_1) (snd (processImage ok_env (Some img_1_2) empty_world)))) =
       {''A/1/1_2.jpg''}"
proof -
  have 1: "CRC32C img_1_2 = CRC32C img_2_1" by (simp add: fixtures)
  have 2: "count_rows (CRC32C img_1_2) (images empty_world) = 0"
    by (simp add: fixtures count_rows_def)
  have 3: "Name img_1_2 \<notin> set (map row_name (images empty_world))" by (simp add: fixtures)
  have 4: "Name img_1_2 \<notin> dst_objects empty_world" by (simp add: fixtures)
  have 5: "tx_error (count_tx ok_env) = None" and 6: "tx_error (insert_tx ok_env) = None"
    and 7: "copy_fault ok_env = None"
    by (simp_all add: fixtures tx_error_def)
  show ?thesis
    using C7_first_copied_second_skipped [OF 1 2 3 4 5 6 7 5 6]
    by (simp add: empty_world_def img_1_2_def)
qed

text \<open>
  C7, counterexample to the claim as stated. First input: the index holds neither
  object but holds a third one, \<open>B/9.jpg\<close>, of the same fingerprint; both objects are
  skipped and nothing is copied. Second input: the index is empty and the destination
  already holds \<open>A/1/1_2.jpg\<close>; the copy of the first object fails, so the outcomes are
  an error and a skip. The index operations succeed in both.
\<close>

theorem C7_counterexample:
  "objectProcessed
     (snd (processImage ok_env (Some img_2_1)
        (snd (processImage ok_env (Some img_1_2)
           (empty_world\<lparr>images :=
              [\<lparr>row_name = ''B/9.jpg'', row_section = ''B'', row_prefix = ''B'',
                row_size = 253703, row_crc32 = 3645130469\<rparr>]\<rparr>))))) =
     [[(''status'', ''success''), (''operation'', ''skip'')],
      [(''status'', ''success''), (''operation'', ''skip'')]]
   \<and> objectProcessed
       (snd (processImage ok_env (Some img_2_1)
          (snd (processImage ok_env (Some img_1_2)
             (empty_world\<lparr>dst_objects := {''A/1/1_2.jpg''}\<rparr>))))) =
       [[(''status'', ''error''), (''operation'', ''copy'')],
        [(''status'', ''success''), (''operation'', ''skip'')]]"
  by (simp add: processImage_def getImageCount_def insertImage_def ExecuteTx_def
        copyObject_def With_Inc_def With_def objectProcessed_labels_def log_def request_def
        count_rows_def insert_row_def section_of_def image_row_of_def fixtures)


text \<open>
  When both index operations succeed, the table after \<open>processImage\<close> is the table
  after the insert, whatever becomes of the copy.
\<close>

lemma processImage_images:
  assumes "tx_error (count_tx e) = None" and "tx_error (insert_tx e) = None"
  shows "images (snd (processImage e (Some a) w)) =
           insert_row (image_row_of e a (section_of (Name a))) (images w)"
proof (cases "count_rows (CRC32C a) (images w) = 0")
  case False
  then show ?thesis by (simp add: processImage_skip [OF assms])
next
  case True
  show ?thesis
  proof (cases "copy_fault e \<noteq> None \<or> Name a \<in> dst_objects w")
    case c: True
    show ?thesis by (simp add: processImage_copy_fails [OF assms True c])
  next
    case False
    then have f: "copy_fault e = None" and d: "Name a \<notin> dst_objects w" by auto
    show ?thesis by (simp add: processImage_copy_ok [OF assms True f d])
  qed
qed

text \<open>\<open>processImage\<close> never removes a row, whatever it is called with and whatever fails.\<close>

lemma processImage_keeps_rows: "set (images w) \<subseteq> set (images (snd (processImage e x w)))"
proof (cases x)
  case None
  then show ?thesis by (simp add: processImage_nil)
next
  case (Some a)
  show ?thesis
  proof (cases "tx_error (count_tx e)")
    case c: (Some err)
    show ?thesis unfolding Some by (simp add: processImage_count_fails [OF c])
  next
    case c: None
    show ?thesis
    proof (cases "tx_error (insert_tx e)")
      case i: (Some err)
      show ?thesis unfolding Some by (simp add: processImage_insert_fails [OF c i])
    next
      case i: None
      show ?thesis unfolding Some
        by (auto simp add: processImage_images [OF c i] insert_row_def)
    qed
  qed
qed





section \<open>The loop of Start\<close>


lemma loop_keeps_service:
  assumes "\<forall>i. \<not> stop_request r i"
  shows "fst (snd (loop r b idx svc w)) = svc"
  using assms
proof (induction b arbitrary: idx w)
  case Nil
  then show ?case by simp
next
  case (Cons f b)
  then show ?case
    by (simp add: Let_def split: prod.splits option.splits fetch.splits)
qed


lemma trace_log [simp]:
  "inserted (log l m w) = inserted w" "copied (log l m w) = copied w"
  "counted (log l m w) = counted w"
  by (simp_all add: inserted_def copied_def counted_def)

lemma schema_init_error: "fst (schema_init r w) = fst (schema_init r w')"
  by (simp add: schema_init_def ExecuteTx_def initTable_def Let_def
        split: option.splits go_error.splits)

lemma schema_init_effects:
  "images (snd (snd (schema_init r w))) = images w
   \<and> dst_objects (snd (snd (schema_init r w))) = dst_objects w
   \<and> objectProcessed (snd (snd (schema_init r w))) = objectProcessed w
   \<and> inserted (snd (snd (schema_init r w))) = inserted w
   \<and> copied (snd (snd (schema_init r w))) = copied w
   \<and> counted (snd (snd (schema_init r w))) = counted w
   \<and> count_list (calls (snd (snd (schema_init r w)))) Next = count_list (calls w) Next"
  by (simp add: schema_init_def ExecuteTx_def initTable_def Let_def inserted_def copied_def
        counted_def split: option.splits go_error.splits)

text \<open>The world in which \<open>Start\<close> runs the schema transaction.\<close>

lemma Start_init_fails:
  assumes "fst (schema_init r w) = Some err"
  shows "Start r svc w =
           (Returned (Some err), svc,
            snd (snd (schema_init r
              (log Info ''src bucket'' (log Info ''dst bucket'' (log Info ''service started'' w))))))"
proof -
  let ?w2 = "log Info ''src bucket'' (log Info ''dst bucket'' (log Info ''service started'' w))"
  from assms schema_init_error [of r ?w2 w] have "fst (schema_init r ?w2) = Some err" by simp
  then show ?thesis
    by (cases "schema_init r ?w2") (simp add: Start_def Let_def)
qed

lemma Start_init_ok:
  assumes "fst (schema_init r w) = None"
  shows "Start r svc w =
           (case loop r (Objects r (mkQuery svc)) 0 (svc\<lparr>Ready := True\<rparr>)
                   (log Info ''service ready''
                      (snd (snd (schema_init r
                         (log Info ''src bucket''
                            (log Info ''dst bucket'' (log Info ''service started'' w))))))) of
              (Some p, svc', w4) \<Rightarrow> (Panicked p, svc', w4)
            | (None, svc', w4) \<Rightarrow> (Returned None, svc', w4))"
proof -
  let ?w2 = "log Info ''src bucket'' (log Info ''dst bucket'' (log Info ''service started'' w))"
  from assms schema_init_error [of r ?w2 w] have "fst (schema_init r ?w2) = None" by simp
  then show ?thesis
    by (cases "schema_init r ?w2") (simp add: Start_def Let_def)
qed

section \<open>C9: a failed schema initialization\<close>

text \<open>
  C9. For a service made by \<open>NewSvc\<close>: when the schema transaction of \<open>Start\<close> ends with
  an error, \<open>Start\<close> returns that error, the service is as \<open>NewSvc\<close> made it, so
  \<open>IsReady\<close> is false and the health handler answers 500 "not ready", and no object
  has been touched: the table, the destination bucket and the counters are unchanged,
  the iterator was not asked for an object, and no count, insert or copy was sent.
  And when \<open>IsReady\<close> holds after \<open>Start\<close>, the schema transaction has succeeded.
  (Whether the schema transaction ends with an error depends on the database only, not
  on the world it runs in: lemma \<open>schema_init_error\<close>.)
\<close>

theorem C9_failed_schema_init_leaves_service_not_ready:
  "(fst (schema_init r w) \<noteq> None \<longrightarrow>
      fst (Start r (NewSvc opts) w) = Returned (fst (schema_init r w))
    \<and> fst (snd (Start r (NewSvc opts) w)) = NewSvc opts
    \<and> \<not> IsReady (fst (snd (Start r (NewSvc opts) w)))
    \<and> health (fst (snd (Start r (NewSvc opts) w))) = (500, ''not ready'')
    \<and> images (snd (snd (Start r (NewSvc opts) w))) = images w
    \<and> dst_objects (snd (snd (Start r (NewSvc opts) w))) = dst_objects w
    \<and> objectProcessed (snd (snd (Start r (NewSvc opts) w))) = objectProcessed w
    \<and> count_list (calls (snd (snd (Start r (NewSvc opts) w)))) Next = count_list (calls w) Next
    \<and> counted (snd (snd (Start r (NewSvc opts) w))) = counted w
    \<and> inserted (snd (snd (Start r (NewSvc opts) w))) = inserted w
    \<and> copied (snd (snd (Start r (NewSvc opts) w))) = copied w)
 \<and> (IsReady (fst (snd (Start r (NewSvc opts) w))) \<longrightarrow> fst (schema_init r w) = None)"
proof -
  have nr: "\<not> Ready (NewSvc opts)" by (simp add: NewSvc_def)
  have a: "fst (schema_init r w) \<noteq> None \<Longrightarrow>
      fst (Start r (NewSvc opts) w) = Returned (fst (schema_init r w))
    \<and> fst (snd (Start r (NewSvc opts) w)) = NewSvc opts
    \<and> \<not> IsReady (fst (snd (Start r (NewSvc opts) w)))
    \<and> health (fst (snd (Start r (NewSvc opts) w))) = (500, ''not ready'')
    \<and> images (snd (snd (Start r (NewSvc opts) w))) = images w
    \<and> dst_objects (snd (snd (Start r (NewSvc opts) w))) = dst_objects w
    \<and> objectProcessed (snd (snd (Start r (NewSvc opts) w))) = objectProcessed w
    \<and> count_list (calls (snd (snd (Start r (NewSvc opts) w)))) Next = count_list (calls w) Next
    \<and> counted (snd (snd (Start r (NewSvc opts) w))) = counted w
    \<and> inserted (snd (snd (Start r (NewSvc opts) w))) = inserted w
    \<and> copied (snd (snd (Start r (NewSvc opts) w))) = copied w"
  proof -
    assume "fst (schema_init r w) \<noteq> None"
    then obtain err where e: "fst (schema_init r w) = Some err" by auto
    show ?thesis
      using nr
      by (simp add: Start_init_fails [OF e] e schema_init_effects IsReady_def health_def)
  qed
  from a have b: "IsReady (fst (snd (Start r (NewSvc opts) w))) \<Longrightarrow> fst (schema_init r w) = None"
    by blast
  from a b show ?thesis by blast
qed

text \<open>
  C9, witness: the database cannot be reached, so the schema transaction cannot be
  opened; the bucket holds the three objects of the README.
\<close>

theorem C9_failed_schema_init_leaves_service_not_ready_witness:
  "fst (Start ((ok_run [Object img_1_1, Object img_1_2, Object img_2_1])
                 \<lparr>init_tx := ok_tx\<lparr>begin_err := Some ConnError\<rparr>\<rparr>)
          (NewSvc \<lparr>opt_Limit = 0, opt_Prefix = [], opt_SrcBucketName = ''s'', opt_DstBucketName = ''d''\<rparr>)
          empty_world) = Returned (Some ConnError)
   \<and> health (fst (snd (Start ((ok_run [Object img_1_1, Object img_1_2, Object img_2_1])
                 \<lparr>init_tx := ok_tx\<lparr>begin_err := Some ConnError\<rparr>\<rparr>)
          (NewSvc \<lparr>opt_Limit = 0, opt_Prefix = [], opt_SrcBucketName = ''s'', opt_DstBucketName = ''d''\<rparr>)
          empty_world))) = (500, ''not ready'')
   \<and> images (snd (snd (Start ((ok_run [Object img_1_1, Object img_1_2, Object img_2_1])
                 \<lparr>init_tx := ok_tx\<lparr>begin_err := Some ConnError\<rparr>\<rparr>)
          (NewSvc \<lparr>opt_Limit = 0, opt_Prefix = [], opt_SrcBucketName = ''s'', opt_DstBucketName = ''d''\<rparr>)
          empty_world))) = []"
proof -
  let ?r = "(ok_run [Object img_1_1, Object img_1_2, Object img_2_1])
              \<lparr>init_tx := ok_tx\<lparr>begin_err := Some ConnError\<rparr>\<rparr>"
  let ?o = "\<lparr>opt_Limit = 0, opt_Prefix = [], opt_SrcBucketName = ''s'', opt_DstBucketName = ''d''\<rparr>"
  have 1: "fst (schema_init ?r empty_world) = Some ConnError"
    by (simp add: schema_init_def ExecuteTx_def ok_run_def ok_tx_def)
  then have ne: "fst (schema_init ?r empty_world) \<noteq> None" by simp
  note t = C9_failed_schema_init_leaves_service_not_ready [of ?r empty_world ?o]
  from t ne have a: "fst (Start ?r (NewSvc ?o) empty_world) = Returned (fst (schema_init ?r empty_world))"
    by blast
  from t ne have b: "health (fst (snd (Start ?r (NewSvc ?o) empty_world))) = (500, ''not ready'')"
    by blast
  from t ne have c: "images (snd (snd (Start ?r (NewSvc ?o) empty_world))) = images empty_world"
    by blast
  have d: "images empty_world = []" by (simp add: empty_world_def)
  from a 1 have a': "fst (Start ?r (NewSvc ?o) empty_world) = Returned (Some ConnError)"
    by (simp only:)
  from a' b c d show ?thesis by (simp only: simp_thms)
qed

section \<open>C2: a failed fetch\<close>

text \<open>
  C2, what the code does where the claim fails. In an iteration that is entered (the
  service is ready and the limit is not reached) and in which \<open>Next\<close> returns an error,
  the error is logged and \<open>processImage\<close> is then called with the \<open>nil\<close> attributes: it
  panics on \<open>attrs.Name\<close>, and the loop ends there, with the rest of the listing unread.
\<close>

theorem C2_failed_fetch_is_processed_and_panics:
  assumes "Ready svc" and "Limit svc = 0 \<or> idx + 1 \<le> Limit svc"
  shows "loop r (NextError err # b) idx svc w =
           (Some NilPointerDereference, svc,
            log Error ''failed to get next bucket object'' (request Next w))"
  using assms by (auto simp add: processImage_nil)

text \<open>
  C2, witness: the first fetch fails and the listing holds one more object; nothing is
  done for that object.
\<close>

theorem C2_failed_fetch_is_processed_and_panics_witness:
  "loop (ok_run [NextError StorageError, Object img_1_1]) [NextError StorageError, Object img_1_1]
      0 ((svc_of 0 [])\<lparr>Ready := True\<rparr>) empty_world =
     (Some NilPointerDereference, (svc_of 0 [])\<lparr>Ready := True\<rparr>,
      empty_world\<lparr>logs := [(Error, ''failed to get next bucket object'')], calls := [Next]\<rparr>)"
proof -
  have 1: "Ready ((svc_of 0 [])\<lparr>Ready := True\<rparr>)" by simp
  have 2: "Limit ((svc_of 0 [])\<lparr>Ready := True\<rparr>) = 0 \<or> 0 + 1 \<le> Limit ((svc_of 0 [])\<lparr>Ready := True\<rparr>)"
    by (simp add: svc_of_def NewSvc_def)
  show ?thesis
    using C2_failed_fetch_is_processed_and_panics [OF 1 2]
    by (simp add: log_def request_def empty_world_def)
qed

section \<open>C4: readiness after the loop\<close>

text \<open>\<open>Stop\<close> is the one place where \<open>Ready\<close> is set to false.\<close>

lemma Stop_not_ready: "\<not> IsReady (fst (Stop svc w))"
  by (simp add: Stop_def IsReady_def)

text \<open>
  C4, what the code does where the claim fails. When no \<open>Stop\<close> is called and \<open>Start\<close>
  returns \<open>nil\<close>, that is, when the loop has ended because the iterator was exhausted or
  the limit was reached, \<open>Ready\<close> is still true: the two \<open>break\<close>s do not reset it, and
  the health handler goes on answering 200 "ready".
\<close>

theorem C4_ready_stays_true_after_loop:
  assumes "\<forall>i. \<not> stop_request r i" and "fst (Start r svc w) = Returned None"
  shows "IsReady (fst (snd (Start r svc w)))
       \<and> health (fst (snd (Start r svc w))) = (200, ''ready'')"
proof (cases "fst (schema_init r w)")
  case (Some err)
  with assms(2) show ?thesis by (simp add: Start_init_fails)
next
  case None
  let ?l = "loop r (Objects r (mkQuery svc)) 0 (svc\<lparr>Ready := True\<rparr>)
              (log Info ''service ready''
                 (snd (snd (schema_init r
                    (log Info ''src bucket''
                       (log Info ''dst bucket'' (log Info ''service started'' w)))))))"
  obtain p svc' w' where l: "?l = (p, svc', w')" by (cases ?l) auto
  have "fst (snd ?l) = svc\<lparr>Ready := True\<rparr>"
    using assms(1) by (rule loop_keeps_service)
  with l have svc': "svc' = svc\<lparr>Ready := True\<rparr>" by simp
  have "fst (snd (Start r svc w)) = svc'"
    by (cases p) (simp_all add: Start_init_ok [OF None] l)
  with svc' show ?thesis by (simp add: IsReady_def health_def)
qed

text \<open>
  C4, witness: an empty bucket without limit (the iterator is exhausted at once), and
  the three objects of the README with limit 1 (the limit is reached).
\<close>

theorem C4_ready_stays_true_after_loop_witness:
  "fst (Start (ok_run []) (svc_of 0 []) empty_world) = Returned None
   \<and> IsReady (fst (snd (Start (ok_run []) (svc_of 0 []) empty_world)))
   \<and> fst (Start (ok_run [Object img_1_1, Object img_1_2, Object img_2_1]) (svc_of 1 []) empty_world) =
       Returned None
   \<and> IsReady (fst (snd (Start (ok_run [Object img_1_1, Object img_1_2, Object img_2_1]) (svc_of 1 [])
                           empty_world)))"
proof -
  have s: "\<forall>i. \<not> stop_request (ok_run b) i" for b by (simp add: ok_run_def)
  have i: "fst (schema_init (ok_run b) empty_world) = None" for b
    by (simp add: schema_init_def ExecuteTx_def initTable_def ok_run_def ok_tx_def)
  have 1: "fst (Start (ok_run []) (svc_of 0 []) empty_world) = Returned None"
    by (simp only: Start_init_ok [OF i])
      (simp add: Objects_def mkQuery_def svc_of_def NewSvc_def ok_run_def)
  have 2: "fst (Start (ok_run [Object img_1_1, Object img_1_2, Object img_2_1]) (svc_of 1 [])
             empty_world) = Returned None"
    by (simp only: Start_init_ok [OF i])
      (simp add: Objects_def mkQuery_def svc_of_def NewSvc_def ok_run_def
          ok_env_def ok_tx_def tx_error_def processImage_copy_ok count_rows_def img_1_1_def
          schema_init_effects empty_world_def)
  show ?thesis
    using C4_ready_stays_true_after_loop [OF s 1] C4_ready_stays_true_after_loop [OF s 2] 1 2
    by simp
qed

section \<open>C5: the limit\<close>






section \<open>C10: the listing filter\<close>









end
